theory Spec2Isabelle
  imports Complex_Main
begin

section \<open>Numeric values\<close>

text \<open>
  Every number the engines compute is a pandas/numpy \<^verbatim>\<open>float64\<close>. The model keeps
  the three special values of that type, since the code relies on how pandas
  propagates and skips them, and takes the finite values to be exact reals:
  rounding, overflow and the sign of zero are not modelled.
\<close>

datatype f64 = Val real | PosInf | NegInf | NaN

fun isnan :: "f64 \<Rightarrow> bool" where
  "isnan NaN = True"
| "isnan _ = False"

fun is_finite :: "f64 \<Rightarrow> bool" where
  "is_finite (Val _) = True"
| "is_finite _ = False"

fun fneg :: "f64 \<Rightarrow> f64" where
  "fneg (Val a) = Val (- a)"
| "fneg PosInf = NegInf"
| "fneg NegInf = PosInf"
| "fneg NaN = NaN"

fun fadd :: "f64 \<Rightarrow> f64 \<Rightarrow> f64" where
  "fadd (Val a) (Val b) = Val (a + b)"
| "fadd NaN _ = NaN"
| "fadd _ NaN = NaN"
| "fadd PosInf NegInf = NaN"
| "fadd NegInf PosInf = NaN"
| "fadd PosInf _ = PosInf"
| "fadd _ PosInf = PosInf"
| "fadd NegInf _ = NegInf"
| "fadd _ NegInf = NegInf"

definition fsub :: "f64 \<Rightarrow> f64 \<Rightarrow> f64" where
  "fsub a b = fadd a (fneg b)"

fun fmul :: "f64 \<Rightarrow> f64 \<Rightarrow> f64" where
  "fmul (Val a) (Val b) = Val (a * b)"
| "fmul NaN _ = NaN"
| "fmul _ NaN = NaN"
| "fmul (Val a) PosInf = (if a = 0 then NaN else if 0 < a then PosInf else NegInf)"
| "fmul (Val a) NegInf = (if a = 0 then NaN else if 0 < a then NegInf else PosInf)"
| "fmul PosInf (Val b) = (if b = 0 then NaN else if 0 < b then PosInf else NegInf)"
| "fmul NegInf (Val b) = (if b = 0 then NaN else if 0 < b then NegInf else PosInf)"
| "fmul PosInf PosInf = PosInf"
| "fmul NegInf NegInf = PosInf"
| "fmul PosInf NegInf = NegInf"
| "fmul NegInf PosInf = NegInf"

text \<open>Division as numpy does it: a zero divisor gives an infinity or \<open>NaN\<close>, never an exception.\<close>

fun fdiv :: "f64 \<Rightarrow> f64 \<Rightarrow> f64" where
  "fdiv (Val a) (Val b) =
     (if b = 0 then (if a = 0 then NaN else if 0 < a then PosInf else NegInf)
      else Val (a / b))"
| "fdiv NaN _ = NaN"
| "fdiv _ NaN = NaN"
| "fdiv (Val a) _ = Val 0"
| "fdiv PosInf (Val b) = (if 0 \<le> b then PosInf else NegInf)"
| "fdiv NegInf (Val b) = (if 0 \<le> b then NegInf else PosInf)"
| "fdiv _ _ = NaN"

text \<open>Comparisons: every comparison with \<open>NaN\<close> is false.\<close>

fun flt :: "f64 \<Rightarrow> f64 \<Rightarrow> bool" where
  "flt (Val a) (Val b) = (a < b)"
| "flt NaN _ = False"
| "flt _ NaN = False"
| "flt NegInf NegInf = False"
| "flt NegInf _ = True"
| "flt (Val a) PosInf = True"
| "flt _ _ = False"

definition feq :: "f64 \<Rightarrow> f64 \<Rightarrow> bool" where
  "feq a b = (a = b \<and> \<not> isnan a)"

definition fle :: "f64 \<Rightarrow> f64 \<Rightarrow> bool" where
  "fle a b = (flt a b \<or> feq a b)"

definition fgt :: "f64 \<Rightarrow> f64 \<Rightarrow> bool" where
  "fgt a b = flt b a"

definition fge :: "f64 \<Rightarrow> f64 \<Rightarrow> bool" where
  "fge a b = fle b a"

fun fabs :: "f64 \<Rightarrow> f64" where
  "fabs (Val a) = Val \<bar>a\<bar>"
| "fabs NaN = NaN"
| "fabs _ = PosInf"

fun fsqrt :: "f64 \<Rightarrow> f64" where
  "fsqrt (Val a) = (if a < 0 then NaN else Val (sqrt a))"
| "fsqrt PosInf = PosInf"
| "fsqrt _ = NaN"

definition fmax :: "f64 \<Rightarrow> f64 \<Rightarrow> f64" where
  "fmax a b = (if flt a b then b else a)"

definition fmin :: "f64 \<Rightarrow> f64 \<Rightarrow> f64" where
  "fmin a b = (if flt b a then b else a)"

definition fsum :: "f64 list \<Rightarrow> f64" where
  "fsum xs = foldl fadd (Val 0) xs"

text \<open>
  Python's \<^verbatim>\<open>round(x, 2)\<close>: to the nearest multiple of 0.01, a tie to the even one;
  the special values are returned unchanged. The model rounds the exact value: where
  float arithmetic leaves a result just beside a tie, the code rounds to the other
  neighbour.
\<close>

definition round_half_even :: "real \<Rightarrow> int" where
  "round_half_even x =
     (let f = \<lfloor>x\<rfloor>; d = x - of_int f
      in if d < 1 / 2 then f else if 1 / 2 < d then f + 1
         else if even f then f else f + 1)"

fun py_round2 :: "f64 \<Rightarrow> f64" where
  "py_round2 (Val x) = Val (of_int (round_half_even (x * 100)) / 100)"
| "py_round2 x = x"

section \<open>Series operations of pandas\<close>

text \<open>
  A Series is the list of its values in index order. All Series of one engine share
  the index of its DataFrame, so the label alignment pandas performs in a binary
  operation is the positional pairing of two lists of the same length.
\<close>

type_synonym series = "f64 list"

definition series_mul :: "series \<Rightarrow> series \<Rightarrow> series" where
  "series_mul xs ys = map2 fmul xs ys"

definition series_sub :: "series \<Rightarrow> series \<Rightarrow> series" where
  "series_sub xs ys = map2 fsub xs ys"

definition series_div :: "series \<Rightarrow> series \<Rightarrow> series" where
  "series_div xs ys = map2 fdiv xs ys"

text \<open>\<^verbatim>\<open>s.shift(1)\<close>: every value moves one place down, the first place is \<open>NaN\<close>.\<close>

definition shift1 :: "series \<Rightarrow> series" where
  "shift1 xs = (if xs = [] then [] else NaN # butlast xs)"

text \<open>\<^verbatim>\<open>s.diff()\<close> and \<^verbatim>\<open>s.pct_change()\<close> (the latter is \<^verbatim>\<open>s / s.shift(1) - 1\<close>).\<close>

definition diff :: "series \<Rightarrow> series" where
  "diff xs = series_sub xs (shift1 xs)"

definition pct_change :: "series \<Rightarrow> series" where
  "pct_change xs = map (\<lambda>q. fsub q (Val 1)) (series_div xs (shift1 xs))"

text \<open>\<^verbatim>\<open>s.ffill()\<close>: a \<open>NaN\<close> takes the last value before it that is not \<open>NaN\<close>.\<close>

fun ffill_from :: "f64 \<Rightarrow> series \<Rightarrow> series" where
  "ffill_from c [] = []"
| "ffill_from c (x # xs) = (let c' = (if isnan x then c else x) in c' # ffill_from c' xs)"

definition ffill :: "series \<Rightarrow> series" where
  "ffill xs = ffill_from NaN xs"

definition fillna :: "f64 \<Rightarrow> series \<Rightarrow> series" where
  "fillna v xs = map (\<lambda>x. if isnan x then v else x) xs"

text \<open>
  \<^verbatim>\<open>s.cumprod()\<close> skips \<open>NaN\<close>: a \<open>NaN\<close> entry stays \<open>NaN\<close> in the result and leaves the
  running product as it was.
\<close>

fun cumprod_from :: "f64 \<Rightarrow> series \<Rightarrow> series" where
  "cumprod_from acc [] = []"
| "cumprod_from acc (x # xs) =
     (if isnan x then NaN # cumprod_from acc xs
      else fmul acc x # cumprod_from (fmul acc x) xs)"

definition cumprod :: "series \<Rightarrow> series" where
  "cumprod xs = cumprod_from (Val 1) xs"

text \<open>The reductions \<^verbatim>\<open>mean()\<close>, \<^verbatim>\<open>std()\<close> (sample deviation, \<^verbatim>\<open>ddof=1\<close>) and \<^verbatim>\<open>min()\<close>
  skip \<open>NaN\<close>; with too few values left they return \<open>NaN\<close>.\<close>

definition dropna :: "series \<Rightarrow> series" where
  "dropna xs = filter (\<lambda>x. \<not> isnan x) xs"

definition mean :: "series \<Rightarrow> f64" where
  "mean xs = (let vs = dropna xs in
     if vs = [] then NaN else fdiv (fsum vs) (Val (real (length vs))))"

definition std :: "series \<Rightarrow> f64" where
  "std xs = (let vs = dropna xs; m = mean xs in
     if length vs \<le> 1 then NaN
     else fsqrt (fdiv (fsum (map (\<lambda>x. fmul (fsub x m) (fsub x m)) vs))
                      (Val (real (length vs - 1)))))"

definition series_min :: "series \<Rightarrow> f64" where
  "series_min xs = (case dropna xs of [] \<Rightarrow> NaN | v # vs \<Rightarrow> foldl fmin v vs)"

text \<open>
  \<^verbatim>\<open>s.expanding().max()\<close>: the largest value seen so far, \<open>NaN\<close> while none was seen.
  pandas takes an infinite entry of the Series for a missing one here, as it takes
  \<open>NaN\<close>.
\<close>

fun expanding_max_from :: "f64 \<Rightarrow> series \<Rightarrow> series" where
  "expanding_max_from m [] = []"
| "expanding_max_from m (x # xs) =
     (let m' = (if \<not> is_finite x then m else if isnan m then x else fmax m x)
      in m' # expanding_max_from m' xs)"

definition expanding_max :: "series \<Rightarrow> series" where
  "expanding_max xs = expanding_max_from NaN xs"

text \<open>
  \<^verbatim>\<open>s.rolling(window=w).agg()\<close>: the aggregate of the \<open>w\<close> values ending at each place,
  \<open>NaN\<close> where fewer than \<open>w\<close> values are there or one of them is \<open>NaN\<close>
  (\<^verbatim>\<open>min_periods\<close> defaults to the window). With \<^verbatim>\<open>center=True\<close> the window is moved
  \<open>(w - 1) div 2\<close> places to the right, so that it lies around the place.
\<close>

definition rolling :: "nat \<Rightarrow> (series \<Rightarrow> f64) \<Rightarrow> series \<Rightarrow> series" where
  "rolling w agg xs =
     map (\<lambda>i. if w = 0 \<or> i + 1 < w then NaN
              else (let win = take w (drop (i + 1 - w) xs)
                    in if list_ex isnan win then NaN else agg win))
         [0..<length xs]"

definition rolling_center :: "nat \<Rightarrow> (series \<Rightarrow> f64) \<Rightarrow> series \<Rightarrow> series" where
  "rolling_center w agg xs =
     map (\<lambda>i. let off = (w - 1) div 2
              in if w = 0 \<or> i + off + 1 < w \<or> length xs \<le> i + off then NaN
                 else (let win = take w (drop (i + off + 1 - w) xs)
                       in if list_ex isnan win then NaN else agg win))
         [0..<length xs]"

definition window_mean :: "series \<Rightarrow> f64" where
  "window_mean win = fdiv (fsum win) (Val (real (length win)))"

definition window_max :: "series \<Rightarrow> f64" where
  "window_max win = (case win of [] \<Rightarrow> NaN | v # vs \<Rightarrow> foldl fmax v vs)"

definition window_min :: "series \<Rightarrow> f64" where
  "window_min win = (case win of [] \<Rightarrow> NaN | v # vs \<Rightarrow> foldl fmin v vs)"

text \<open>
  \<^verbatim>\<open>s.ewm(span=p, adjust=False).mean()\<close> on a Series without \<open>NaN\<close>: the first value
  seeds the average, every later value enters with weight \<open>2 / (p + 1)\<close>. pandas
  raises \<^verbatim>\<open>ValueError\<close> for a span below 1.
\<close>

datatype error = ValueError | IndexError

fun ewm_from :: "real \<Rightarrow> f64 \<Rightarrow> series \<Rightarrow> series" where
  "ewm_from \<alpha> y [] = []"
| "ewm_from \<alpha> y (x # xs) =
     (let y' = fadd (fmul (Val (1 - \<alpha>)) y) (fmul (Val \<alpha>) x) in y' # ewm_from \<alpha> y' xs)"

definition ewm_mean :: "nat \<Rightarrow> series \<Rightarrow> error + series" where
  "ewm_mean n xs =
     (if n < 1 then Inl ValueError
      else Inr (case xs of [] \<Rightarrow> [] | x # r \<Rightarrow> x # ewm_from (2 / (real n + 1)) x r))"

section \<open>The price history\<close>

text \<open>
  One row of the OHLC DataFrame. \<open>Timestamp\<close> is the row's index label as the trade
  log prints it. The columns hold finite prices.
\<close>

record bar =
  Timestamp :: string
  Open :: real
  High :: real
  Low :: real
  Close :: real
  Volume :: real

definition column :: "(bar \<Rightarrow> real) \<Rightarrow> bar list \<Rightarrow> series" where
  "column c df = map (\<lambda>b. Val (c b)) df"

section \<open>analysis\_engine.py: AnalysisEngine\<close>

text \<open>
  The engine holds the DataFrame; the model passes it as the last argument. Periods
  and windows are natural numbers: pandas rejects a negative window with
  \<^verbatim>\<open>ValueError\<close> before anything is computed. The required columns are fields of
  \<open>bar\<close>, so the check of \<open>_validate_data\<close> cannot fail.
\<close>

definition sma :: "nat \<Rightarrow> bar list \<Rightarrow> series" where
  "sma period df = rolling period window_mean (column Close df)"

definition ema :: "nat \<Rightarrow> bar list \<Rightarrow> error + series" where
  "ema period df = ewm_mean period (column Close df)"

definition wma :: "nat \<Rightarrow> bar list \<Rightarrow> series" where
  "wma period df =
     (let weights = map (\<lambda>k. Val (real k)) [1..<period + 1]
      in rolling period (\<lambda>x. fdiv (fsum (map2 fmul x weights)) (fsum weights))
           (column Close df))"

text \<open>
  \<open>rsi\<close>. The first argument is the optional dependency: \<open>Some f\<close> when the \<^verbatim>\<open>ta\<close>
  package was importable (\<^verbatim>\<open>TA_AVAILABLE\<close>), \<open>f\<close> being its
  \<^verbatim>\<open>RSIIndicator(close, window).rsi()\<close>; \<open>None\<close> when it was not, and the engine computes
  the oscillator itself.
\<close>

definition rsi_manual :: "nat \<Rightarrow> bar list \<Rightarrow> series" where
  "rsi_manual period df =
     (let delta = diff (column Close df);
          gain = rolling period window_mean
                   (map (\<lambda>d. if fgt d (Val 0) then d else Val 0) delta);
          loss = rolling period window_mean
                   (map fneg (map (\<lambda>d. if flt d (Val 0) then d else Val 0) delta));
          rs = series_div gain loss
      in map (\<lambda>r. fsub (Val 100) (fdiv (Val 100) (fadd (Val 1) r))) rs)"

definition rsi :: "(nat \<Rightarrow> series \<Rightarrow> series) option \<Rightarrow> nat \<Rightarrow> bar list \<Rightarrow> series" where
  "rsi ta period df =
     (case ta of Some rsi_indicator \<Rightarrow> rsi_indicator period (column Close df)
      | None \<Rightarrow> rsi_manual period df)"

record macd_result =
  macd_line :: series
  signal_line :: series
  histogram :: series

definition macd :: "nat \<Rightarrow> nat \<Rightarrow> nat \<Rightarrow> bar list \<Rightarrow> error + macd_result" where
  "macd fast slow signal_period df =
     (case ema fast df of Inl e \<Rightarrow> Inl e | Inr ema_fast \<Rightarrow>
      case ema slow df of Inl e \<Rightarrow> Inl e | Inr ema_slow \<Rightarrow>
      let ml = series_sub ema_fast ema_slow in
      case ewm_mean signal_period ml of Inl e \<Rightarrow> Inl e | Inr sl \<Rightarrow>
      Inr \<lparr>macd_line = ml, signal_line = sl, histogram = series_sub ml sl\<rparr>)"

text \<open>
  \<open>find_support_resistance\<close>. The two loops run over \<^verbatim>\<open>range(window, len(df) - window)\<close>
  and append the level of every bar that passes both tests; the lists are then
  deduplicated, sorted and cut to five.
\<close>

definition touches :: "real list \<Rightarrow> real \<Rightarrow> int" where
  "touches col level =
     int (length (filter (\<lambda>h. fge (Val h) (fmul (Val level) (Val (98 / 100))) \<and>
                              fle (Val h) (fmul (Val level) (Val (102 / 100)))) col))"

definition level_loop :: "real list \<Rightarrow> series \<Rightarrow> nat \<Rightarrow> int \<Rightarrow> real list" where
  "level_loop col rolled window min_touches =
     foldl (\<lambda>levels i.
              if feq (Val (col ! i)) (rolled ! i) then
                (let level = col ! i in
                 if touches col level \<ge> min_touches then levels @ [level] else levels)
              else levels)
       [] [window..<length col - window]"

record support_resistance =
  support :: "real list"
  resistance :: "real list"

definition find_support_resistance :: "nat \<Rightarrow> int \<Rightarrow> bar list \<Rightarrow> support_resistance" where
  "find_support_resistance window min_touches df =
     (let highs = rolling_center window window_max (column High df);
          lows = rolling_center window window_min (column Low df);
          resistance_levels = level_loop (map High df) highs window min_touches;
          support_levels = level_loop (map Low df) lows window min_touches
      in \<lparr>support = take 5 (sort (remdups support_levels)),
          resistance = take 5 (rev (sort (remdups resistance_levels)))\<rparr>)"

section \<open>backtest\_engine.py: BacktestEngine\<close>

text \<open>
  The engine holds the DataFrame and the initial capital; the model passes them as
  the first arguments of \<open>simple_backtest\<close>.
  A signal Series holds the integers 1 (buy), -1 (sell) and 0 (hold), one per bar.
  \<open>positions_of\<close> is \<^verbatim>\<open>signals.replace(0, np.nan).ffill().fillna(0)\<close>.
\<close>

definition replace_zero :: "int list \<Rightarrow> series" where
  "replace_zero signals = map (\<lambda>s. if s = 0 then NaN else Val (of_int s)) signals"

definition positions_of :: "int list \<Rightarrow> series" where
  "positions_of signals = fillna (Val 0) (ffill (replace_zero signals))"

record trade =
  trade_number :: nat
  entry_date :: string
  exit_date :: string
  entry_price :: f64
  exit_price :: f64
  entry_idx :: nat
  exit_idx :: nat
  pnl_pct :: f64
  pnl_amount :: f64
  duration_periods :: nat
  win :: bool

text \<open>
  The loop of \<open>_calculate_trades\<close>. Its variables \<^verbatim>\<open>entry_idx\<close>, \<^verbatim>\<open>entry_price_val\<close>
  and \<^verbatim>\<open>entry_date\<close> are assigned together when \<^verbatim>\<open>in_position\<close> becomes true and
  are read only while it is true: the model keeps them as one optional value, \<open>None\<close>
  when \<^verbatim>\<open>in_position\<close> is false.
\<close>

record holding =
  held_idx :: nat
  held_price :: f64
  held_date :: string

definition close_trade :: "trade list \<Rightarrow> holding \<Rightarrow> nat \<Rightarrow> bar \<Rightarrow> trade" where
  "close_trade ts h i b =
     (let exit_price_val = Val (Close b);
          pnl = fmul (fdiv (fsub exit_price_val (held_price h)) (held_price h)) (Val 100);
          amount = fsub exit_price_val (held_price h)
      in \<lparr>trade_number = length ts + 1,
          entry_date = held_date h,
          exit_date = Timestamp b,
          entry_price = py_round2 (held_price h),
          exit_price = py_round2 exit_price_val,
          entry_idx = held_idx h,
          exit_idx = i,
          pnl_pct = py_round2 pnl,
          pnl_amount = py_round2 amount,
          duration_periods = i - held_idx h,
          win = fgt pnl (Val 0)\<rparr>)"

fun trades_loop :: "nat \<Rightarrow> series \<Rightarrow> bar list \<Rightarrow> holding option \<Rightarrow> trade list \<Rightarrow> trade list" where
  "trades_loop i (p # ps) (b # bs) held ts =
     (case held of
        None \<Rightarrow>
          if feq p (Val 1) then
            trades_loop (Suc i) ps bs
              (Some \<lparr>held_idx = i, held_price = Val (Close b), held_date = Timestamp b\<rparr>) ts
          else trades_loop (Suc i) ps bs None ts
      | Some h \<Rightarrow>
          if feq p (Val (- 1)) then
            trades_loop (Suc i) ps bs None (ts @ [close_trade ts h i b])
          else trades_loop (Suc i) ps bs (Some h) ts)"
| "trades_loop i _ _ held ts = ts"

definition calculate_trades :: "series \<Rightarrow> bar list \<Rightarrow> trade list" where
  "calculate_trades positions df = trades_loop 0 positions df None []"

definition calculate_sharpe :: "series \<Rightarrow> real \<Rightarrow> f64" where
  "calculate_sharpe rets risk_free_rate =
     (if length rets = 0 \<or> feq (std rets) (Val 0) then Val 0
      else (let excess_returns = map (\<lambda>x. fsub x (Val (risk_free_rate / 252))) rets
            in fdiv (fmul (Val (sqrt 252)) (mean excess_returns)) (std rets)))"

definition calculate_max_drawdown :: "series \<Rightarrow> f64" where
  "calculate_max_drawdown equity =
     (if length equity = 0 then Val 0
      else (let running_max = expanding_max equity;
                drawdown = map (\<lambda>q. fmul q (Val 100))
                             (series_div (series_sub equity running_max) running_max)
            in fabs (series_min drawdown)))"

definition calculate_win_rate :: "trade list \<Rightarrow> f64" where
  "calculate_win_rate ts =
     (if length ts = 0 then Val 0
      else Val (real (length (filter win ts)) / real (length ts) * 100))"

text \<open>Python's \<^verbatim>\<open>max(xs, default=d)\<close> and \<^verbatim>\<open>min(xs, default=d)\<close>.\<close>

definition py_max :: "f64 list \<Rightarrow> f64 \<Rightarrow> f64" where
  "py_max xs d = (case xs of [] \<Rightarrow> d | x # r \<Rightarrow> foldl (\<lambda>m y. if fgt y m then y else m) x r)"

definition py_min :: "f64 list \<Rightarrow> f64 \<Rightarrow> f64" where
  "py_min xs d = (case xs of [] \<Rightarrow> d | x # r \<Rightarrow> foldl (\<lambda>m y. if flt y m then y else m) x r)"

record backtest_result =
  total_return_pct :: f64
  sharpe :: f64
  max_dd_pct :: f64
  trades :: nat
  win_rate_pct :: f64
  equity_curve :: series
  returns :: series
  trades_detail :: "trade list"
  final_equity :: f64
  avg_win_pct :: f64
  avg_loss_pct :: f64
  largest_win_pct :: f64
  largest_loss_pct :: f64
  winning_trades :: nat
  losing_trades :: nat

text \<open>
  The steps of \<open>simple_backtest\<close>, with \<^verbatim>\<open>entry_price\<close> and \<^verbatim>\<open>exit_price\<close> at their
  default, the \<^verbatim>\<open>Close\<close> column. \<^verbatim>\<open>equity.iloc[-1]\<close> raises \<^verbatim>\<open>IndexError\<close> on an empty
  Series.
\<close>

definition strategy_returns_of :: "bar list \<Rightarrow> int list \<Rightarrow> series" where
  "strategy_returns_of df signals =
     series_mul (shift1 (positions_of signals)) (pct_change (column Close df))"

definition equity_of :: "real \<Rightarrow> series \<Rightarrow> series" where
  "equity_of initial_capital strategy_returns =
     map (\<lambda>c. fmul c (Val initial_capital)) (cumprod (map (fadd (Val 1)) strategy_returns))"

definition trade_statistics :: "trade list \<Rightarrow> f64 \<times> f64 \<times> f64 \<times> f64" where
  "trade_statistics ts =
     (if ts \<noteq> [] then
        (let winners = filter win ts;
             losers = filter (\<lambda>t. \<not> win t) ts;
             avg_win = (if winners \<noteq> []
                        then fdiv (fsum (map pnl_pct winners)) (Val (real (length winners)))
                        else Val 0);
             avg_loss = (if losers \<noteq> []
                         then fdiv (fsum (map pnl_pct losers)) (Val (real (length losers)))
                         else Val 0);
             largest_win = py_max (map pnl_pct ts) (Val 0);
             largest_loss = py_min (map pnl_pct ts) (Val 0)
         in (avg_win, avg_loss, largest_win, largest_loss))
      else (Val 0, Val 0, Val 0, Val 0))"

definition simple_backtest :: "real \<Rightarrow> bar list \<Rightarrow> int list \<Rightarrow> error + backtest_result" where
  "simple_backtest initial_capital df signals =
     (let positions = positions_of signals;
          strategy_returns = strategy_returns_of df signals;
          equity = equity_of initial_capital strategy_returns
      in if equity = [] then Inl IndexError
         else
          (let total_return =
                 fmul (fsub (fdiv (last equity) (Val initial_capital)) (Val 1)) (Val 100);
               ts = calculate_trades positions df
           in case trade_statistics ts of (avg_win, avg_loss, largest_win, largest_loss) \<Rightarrow>
              Inr \<lparr>total_return_pct = total_return,
                   sharpe = calculate_sharpe strategy_returns 0,
                   max_dd_pct = calculate_max_drawdown equity,
                   trades = length ts,
                   win_rate_pct = calculate_win_rate ts,
                   equity_curve = equity,
                   returns = strategy_returns,
                   trades_detail = ts,
                   final_equity = last equity,
                   avg_win_pct = py_round2 avg_win,
                   avg_loss_pct = py_round2 avg_loss,
                   largest_win_pct = py_round2 largest_win,
                   largest_loss_pct = py_round2 largest_loss,
                   winning_trades = (if ts \<noteq> [] then length (filter win ts) else 0),
                   losing_trades = (if ts \<noteq> [] then length (filter (\<lambda>t. \<not> win t) ts) else 0)\<rparr>))"

text \<open>
  The crossover strategies build their signals by boolean-mask assignment:
  \<^verbatim>\<open>signals[crossover_up] = 1\<close>, then \<^verbatim>\<open>signals[crossover_down] = -1\<close>, on a Series of
  zeros over the DataFrame's index.
\<close>

definition mask_assign :: "bool list \<Rightarrow> int \<Rightarrow> int list \<Rightarrow> int list" where
  "mask_assign flags v xs = map2 (\<lambda>m x. if m then v else x) flags xs"

definition crossover_up :: "series \<Rightarrow> series \<Rightarrow> bool list" where
  "crossover_up a b = map2 (\<and>) (map2 fgt a b) (map2 fle (shift1 a) (shift1 b))"

definition crossover_down :: "series \<Rightarrow> series \<Rightarrow> bool list" where
  "crossover_down a b = map2 (\<and>) (map2 flt a b) (map2 fge (shift1 a) (shift1 b))"

definition crossover_signals :: "nat \<Rightarrow> series \<Rightarrow> series \<Rightarrow> int list" where
  "crossover_signals n a b =
     mask_assign (crossover_down a b) (- 1) (mask_assign (crossover_up a b) 1 (replicate n 0))"

definition sma_crossover_signals :: "nat \<Rightarrow> nat \<Rightarrow> bar list \<Rightarrow> int list" where
  "sma_crossover_signals fast_period slow_period df =
     crossover_signals (length df) (sma fast_period df) (sma slow_period df)"

definition sma_crossover_backtest ::
  "real \<Rightarrow> bar list \<Rightarrow> nat \<Rightarrow> nat \<Rightarrow> error + backtest_result" where
  "sma_crossover_backtest initial_capital df fast_period slow_period =
     simple_backtest initial_capital df (sma_crossover_signals fast_period slow_period df)"

definition macd_crossover_signals :: "nat \<Rightarrow> nat \<Rightarrow> nat \<Rightarrow> bar list \<Rightarrow> error + int list" where
  "macd_crossover_signals fast slow signal_period df =
     (case macd fast slow signal_period df of Inl e \<Rightarrow> Inl e
      | Inr m \<Rightarrow> Inr (crossover_signals (length df) (macd_line m) (signal_line m)))"

definition macd_crossover_backtest ::
  "real \<Rightarrow> bar list \<Rightarrow> nat \<Rightarrow> nat \<Rightarrow> nat \<Rightarrow> error + backtest_result" where
  "macd_crossover_backtest initial_capital df fast slow signal_period =
     (case macd_crossover_signals fast slow signal_period df of Inl e \<Rightarrow> Inl e
      | Inr signals \<Rightarrow> simple_backtest initial_capital df signals)"

section \<open>Auxiliary definitions for the statements\<close>

text \<open>
  \<open>hold c signals\<close> is the signal Series held forward: each place carries the last
  non-zero signal up to it, and \<open>c\<close> while there was none.
\<close>

fun hold :: "int \<Rightarrow> int list \<Rightarrow> int list" where
  "hold c [] = []"
| "hold c (s # ss) = (let c' = (if s = 0 then c else s) in c' # hold c' ss)"

text \<open>A bar whose four prices are all \<open>c\<close>, for the concrete histories below.\<close>

definition flat_bar :: "real \<Rightarrow> bar" where
  "flat_bar c = \<lparr>Timestamp = [], Open = c, High = c, Low = c, Close = c, Volume = 0\<rparr>"

text \<open>
  The transitions of a series \<open>a\<close> relative to a series \<open>b\<close> at bar \<open>i\<close>, and what the
  crossover strategies promise of their signal stream \<open>sig\<close>: a buy exactly on an
  upward transition, a sell exactly on a downward one, a hold everywhere else, and
  between two signals of the same direction a bar at which the relation that held at
  the first of them holds no longer.
\<close>

definition crosses_up :: "series \<Rightarrow> series \<Rightarrow> nat \<Rightarrow> bool" where
  "crosses_up a b i = (0 < i \<and> fgt (a ! i) (b ! i) \<and> fle (a ! (i - 1)) (b ! (i - 1)))"

definition crosses_down :: "series \<Rightarrow> series \<Rightarrow> nat \<Rightarrow> bool" where
  "crosses_down a b i = (0 < i \<and> flt (a ! i) (b ! i) \<and> fge (a ! (i - 1)) (b ! (i - 1)))"

definition signals_on_transitions :: "nat \<Rightarrow> series \<Rightarrow> series \<Rightarrow> int list \<Rightarrow> bool" where
  "signals_on_transitions n a b sig =
     (length sig = n \<and>
      (\<forall>i<n. (sig ! i = 1 \<longleftrightarrow> crosses_up a b i) \<and>
              (sig ! i = - 1 \<longleftrightarrow> crosses_down a b i) \<and>
              (sig ! i = 0 \<longleftrightarrow> \<not> crosses_up a b i \<and> \<not> crosses_down a b i)))"

definition relation_reverses_between :: "nat \<Rightarrow> series \<Rightarrow> series \<Rightarrow> int list \<Rightarrow> bool" where
  "relation_reverses_between n a b sig =
     (\<forall>i j. i < j \<and> j < n \<longrightarrow>
        (sig ! i = 1 \<and> sig ! j = 1 \<longrightarrow>
           (\<exists>k. i < k \<and> k < j \<and> fgt (a ! (k - 1)) (b ! (k - 1)) \<and> \<not> fgt (a ! k) (b ! k))) \<and>
        (sig ! i = - 1 \<and> sig ! j = - 1 \<longrightarrow>
           (\<exists>k. i < k \<and> k < j \<and> flt (a ! (k - 1)) (b ! (k - 1)) \<and> \<not> flt (a ! k) (b ! k))))"

text \<open>A five-bar history on which the one-bar average touches the two-bar average
  from above at the fourth bar and rises above it again at the fifth.\<close>

definition touch_history :: "bar list" where
  "touch_history = map flat_bar [2, 1, 2, 2, 3]"

text \<open>A three-bar history: the close rises from 100 to 125 and falls back to 100.\<close>

definition rise_and_fall :: "bar list" where
  "rise_and_fall = map flat_bar [100, 125, 100]"






text \<open>A three-bar history with closes 100, 101 and 102.\<close>

definition quiet_history :: "bar list" where
  "quiet_history = map flat_bar [100, 101, 102]"

text \<open>
  The oscillator in the words of the specification: the upward and downward moves
  of the close (no move at the first bar), their simple means over the last
  \<open>period\<close> bars up to bar \<open>i\<close>, and \<open>100 - 100 / (1 + ratio)\<close> in float arithmetic.
\<close>

definition up_move :: "bar list \<Rightarrow> nat \<Rightarrow> real" where
  "up_move df k = (if k = 0 then 0 else max (Close (df ! k) - Close (df ! (k - 1))) 0)"

definition down_move :: "bar list \<Rightarrow> nat \<Rightarrow> real" where
  "down_move df k = (if k = 0 then 0 else max (Close (df ! (k - 1)) - Close (df ! k)) 0)"

definition avg_gain :: "nat \<Rightarrow> bar list \<Rightarrow> nat \<Rightarrow> real" where
  "avg_gain period df i = sum_list (map (up_move df) [i + 1 - period..<i + 1]) / real period"

definition avg_loss :: "nat \<Rightarrow> bar list \<Rightarrow> nat \<Rightarrow> real" where
  "avg_loss period df i = sum_list (map (down_move df) [i + 1 - period..<i + 1]) / real period"

definition rsi_value :: "real \<Rightarrow> real \<Rightarrow> f64" where
  "rsi_value gain loss =
     fsub (Val 100) (fdiv (Val 100) (fadd (Val 1) (fdiv (Val gain) (Val loss))))"

text \<open>
  An oscillator with exponential (Wilder) smoothing, the kind the \<^verbatim>\<open>ta\<close> package
  computes: gains and losses are smoothed with weight \<open>1 / window\<close>, seeded by their
  first value, the first \<open>window - 1\<close> entries are undefined, and a zero average loss
  gives 100. It stands for the optional dependency in the concrete instance below.
\<close>

definition wilder_rsi :: "nat \<Rightarrow> series \<Rightarrow> series" where
  "wilder_rsi window closes =
     (let delta = diff closes;
          up = map (\<lambda>d. if fgt d (Val 0) then d else Val 0) delta;
          dn = map fneg (map (\<lambda>d. if flt d (Val 0) then d else Val 0) delta);
          smooth = (\<lambda>xs. case xs of [] \<Rightarrow> [] | x # r \<Rightarrow> x # ewm_from (1 / real window) x r);
          hide = (\<lambda>xs. map2 (\<lambda>i x. if i + 1 < window then NaN else x) [0..<length xs] xs);
          emaup = hide (smooth up);
          emadn = hide (smooth dn)
      in map2 (\<lambda>u d. if feq d (Val 0) then Val 100
                      else fsub (Val 100) (fdiv (Val 100) (fadd (Val 1) (fdiv u d))))
           emaup emadn)"

text \<open>A four-bar history: up by one, down by one, unchanged.\<close>

definition zigzag :: "bar list" where
  "zigzag = map flat_bar [10, 11, 10, 10]"

text \<open>
  Support and resistance in the words of the specification, with the window the
  code uses. \<open>window_bars window i\<close> are the \<open>window\<close> bars of the centered rolling
  window at bar \<open>i\<close>; a bar of the interior is a resistance (support) candidate when
  its high (low) is the largest high (smallest low) of these bars; a touch of a
  level is a bar whose high (low) lies within 2 percent of it.
\<close>

definition window_bars :: "nat \<Rightarrow> nat \<Rightarrow> nat list" where
  "window_bars window i =
     [i + (window - 1) div 2 + 1 - window..<i + (window - 1) div 2 + 1]"

definition interior :: "nat \<Rightarrow> bar list \<Rightarrow> nat \<Rightarrow> bool" where
  "interior window df i = (0 < window \<and> window \<le> i \<and> i + window < length df)"

definition resistance_candidate :: "nat \<Rightarrow> bar list \<Rightarrow> nat \<Rightarrow> bool" where
  "resistance_candidate window df i =
     (interior window df i \<and>
      High (df ! i) = Max (set (map (\<lambda>k. High (df ! k)) (window_bars window i))))"

definition support_candidate :: "nat \<Rightarrow> bar list \<Rightarrow> nat \<Rightarrow> bool" where
  "support_candidate window df i =
     (interior window df i \<and>
      Low (df ! i) = Min (set (map (\<lambda>k. Low (df ! k)) (window_bars window i))))"

definition touch_count :: "real list \<Rightarrow> real \<Rightarrow> int" where
  "touch_count col level =
     int (length (filter (\<lambda>h. level * (98 / 100) \<le> h \<and> h \<le> level * (102 / 100)) col))"

definition resistance_levels :: "nat \<Rightarrow> int \<Rightarrow> bar list \<Rightarrow> real set" where
  "resistance_levels window min_touches df =
     {High (df ! i) | i. resistance_candidate window df i \<and>
                         min_touches \<le> touch_count (map High df) (High (df ! i))}"

definition support_levels :: "nat \<Rightarrow> int \<Rightarrow> bar list \<Rightarrow> real set" where
  "support_levels window min_touches df =
     {Low (df ! i) | i. support_candidate window df i \<and>
                        min_touches \<le> touch_count (map Low df) (Low (df ! i))}"

text \<open>The candidate test as the specification words it, over the \<open>2 * window + 1\<close> bars
  from \<open>i - window\<close> to \<open>i + window\<close>.\<close>

definition stated_resistance_candidate :: "nat \<Rightarrow> bar list \<Rightarrow> nat \<Rightarrow> bool" where
  "stated_resistance_candidate window df i =
     (window \<le> i \<and> i + window < length df \<and>
      High (df ! i) = Max (set (map (\<lambda>k. High (df ! k)) [i - window..<i + window + 1])))"

text \<open>A three-bar history with a low bar between two high ones.\<close>

definition valley :: "bar list" where
  "valley = map flat_bar [5, 1, 5]"

section \<open>Facts about the Series operations\<close>

lemmas series_defs = series_mul_def series_div_def series_sub_def shift1_def pct_change_def
  diff_def column_def fillna_def ffill_def cumprod_def dropna_def fsum_def

lemmas compare_defs = fsub_def feq_def fle_def fgt_def fge_def fmax_def fmin_def

lemmas backtest_defs = positions_of_def replace_zero_def strategy_returns_of_def equity_of_def
  calculate_trades_def close_trade_def trade_statistics_def py_max_def py_min_def
  round_half_even_def simple_backtest_def calculate_sharpe_def calculate_max_drawdown_def
  calculate_win_rate_def std_def mean_def expanding_max_def series_min_def

lemma length_shift1 [simp]: "length (shift1 xs) = length xs"
  by (simp add: shift1_def)

lemma nth_shift1: "i < length xs \<Longrightarrow> shift1 xs ! i = (if i = 0 then NaN else xs ! (i - 1))"
  by (cases i) (auto simp: shift1_def nth_butlast)

lemma length_series_mul [simp]: "length (series_mul xs ys) = min (length xs) (length ys)"
  by (simp add: series_mul_def)

lemma length_series_div [simp]: "length (series_div xs ys) = min (length xs) (length ys)"
  by (simp add: series_div_def)

lemma length_series_sub [simp]: "length (series_sub xs ys) = min (length xs) (length ys)"
  by (simp add: series_sub_def)

lemma length_pct_change [simp]: "length (pct_change xs) = length xs"
  by (simp add: pct_change_def)

lemma length_diff [simp]: "length (diff xs) = length xs"
  by (simp add: diff_def)

lemma length_column [simp]: "length (column c df) = length df"
  by (simp add: column_def)

lemma nth_column: "i < length df \<Longrightarrow> column c df ! i = Val (c (df ! i))"
  by (simp add: column_def)

lemma nth_pct_change:
  "i < length xs \<Longrightarrow> pct_change xs ! i = fsub (fdiv (xs ! i) (shift1 xs ! i)) (Val 1)"
  by (simp add: pct_change_def series_div_def)

lemma length_ffill_from [simp]: "length (ffill_from c xs) = length xs"
  by (induction xs arbitrary: c) (simp_all add: Let_def)

lemma length_positions_of [simp]: "length (positions_of signals) = length signals"
  by (simp add: positions_of_def fillna_def ffill_def replace_zero_def)

lemma length_cumprod_from [simp]: "length (cumprod_from a xs) = length xs"
  by (induction xs arbitrary: a) simp_all

lemma length_strategy_returns_of [simp]:
  "length (strategy_returns_of df signals) = min (length signals) (length df)"
  by (simp add: strategy_returns_of_def)

lemma length_equity_of [simp]: "length (equity_of cap sr) = length sr"
  by (simp add: equity_of_def cumprod_def)

subsection \<open>Positions are the held signals\<close>

lemma ffill_hold:
  "fillna (Val 0) (ffill_from (if c = 0 then NaN else Val (of_int c)) (replace_zero ss)) =
     map (\<lambda>k. Val (of_int k)) (hold c ss)"
proof (induction ss arbitrary: c)
  case Nil
  show ?case by (simp add: replace_zero_def fillna_def)
next
  case (Cons s ss)
  show ?case
  proof (cases "s = 0")
    case True
    with Cons[of c] show ?thesis
      by (simp add: replace_zero_def fillna_def Let_def)
  next
    case False
    with Cons[of s] show ?thesis
      by (simp add: replace_zero_def fillna_def Let_def)
  qed
qed

lemma positions_of_hold: "positions_of ss = map (\<lambda>k. Val (of_int k)) (hold 0 ss)"
  using ffill_hold[of 0 ss] by (simp add: positions_of_def ffill_def)

lemma length_hold [simp]: "length (hold c ss) = length ss"
  by (induction ss arbitrary: c) (simp_all add: Let_def)

lemma hold_nth_0: "ss \<noteq> [] \<Longrightarrow> hold c ss ! 0 = (if ss ! 0 = 0 then c else ss ! 0)"
  by (cases ss) (simp_all add: Let_def)


section \<open>The claims\<close>

text \<open>
  C3 (long-only simulator; redundant signals are no-ops). The code does not keep
  this: \<open>positions_of\<close> holds a sell signal forward as the position \<open>-1\<close>, and the
  equity curve is computed from that position. On the two-bar history with closes
  100 and 125 and initial capital 10000, a sell signal at the first bar (while flat)
  leaves the trade log empty, as a hold does, but the position indicator is \<open>-1\<close> at
  both bars and the equity at the second bar is 7500, where the all-hold stream
  gives 10000.
\<close>

theorem sell_while_flat_goes_short:
  "positions_of [- 1, 0] = [Val (- 1), Val (- 1)] \<and>
   (\<exists>r. simple_backtest 10000 [flat_bar 100, flat_bar 125] [- 1, 0] = Inr r \<and>
        equity_curve r = [NaN, Val 7500] \<and> trades_detail r = []) \<and>
   (\<exists>r. simple_backtest 10000 [flat_bar 100, flat_bar 125] [0, 0] = Inr r \<and>
        equity_curve r = [NaN, Val 10000] \<and> trades_detail r = [])"
  by (simp add: backtest_defs series_defs compare_defs flat_bar_def Let_def)

text \<open>
  C4 (largest win over the winning trades only, largest loss over the losing trades
  only, 0 for an empty subset). The code takes both extremes over all trades. With
  one losing round trip (buy at 100, sell at 75) the result reports a largest win of
  -25 percent, the loss itself, next to an average win of 0; with one winning round
  trip (buy at 100, sell at 125) it reports a largest loss of +25 percent.
\<close>

theorem largest_win_is_taken_over_all_trades:
  "(\<exists>r. simple_backtest 10000 [flat_bar 100, flat_bar 75] [1, - 1] = Inr r \<and>
        map win (trades_detail r) = [False] \<and> map pnl_pct (trades_detail r) = [Val (- 25)] \<and>
        avg_win_pct r = Val 0 \<and> largest_win_pct r = Val (- 25)) \<and>
   (\<exists>r. simple_backtest 10000 [flat_bar 100, flat_bar 125] [1, - 1] = Inr r \<and>
        map win (trades_detail r) = [True] \<and> map pnl_pct (trades_detail r) = [Val 25] \<and>
        avg_loss_pct r = Val 0 \<and> largest_loss_pct r = Val 25)"
  by (simp add: backtest_defs series_defs compare_defs flat_bar_def Let_def)

subsection \<open>Rolling windows and exponential smoothing\<close>

lemmas indicator_defs = sma_def wma_def ema_def ewm_mean_def rolling_def window_mean_def
  rolling_center_def window_max_def window_min_def

lemma length_rolling [simp]: "length (rolling w agg xs) = length xs"
  by (simp add: rolling_def)

lemma nth_rolling_prefix: "i < length xs \<Longrightarrow> i + 1 < w \<Longrightarrow> rolling w agg xs ! i = NaN"
  by (simp add: rolling_def)

lemma rolling_short: "length xs < w \<Longrightarrow> v \<in> set (rolling w agg xs) \<Longrightarrow> v = NaN"
  by (auto simp: rolling_def)

lemma length_sma [simp]: "length (sma period df) = length df"
  by (simp add: sma_def)

lemma length_wma [simp]: "length (wma period df) = length df"
  by (simp add: wma_def Let_def)

lemma length_ewm_from [simp]: "length (ewm_from \<alpha> y xs) = length xs"
  by (induction xs arbitrary: y) (simp_all add: Let_def)

lemma ewm_from_finite:
  "is_finite y \<Longrightarrow> \<forall>x\<in>set xs. is_finite x \<Longrightarrow> v \<in> set (ewm_from \<alpha> y xs) \<Longrightarrow> is_finite v"
proof (induction xs arbitrary: y)
  case Nil
  then show ?case by simp
next
  case (Cons x xs)
  from Cons.prems obtain a b where ab: "y = Val a" "x = Val b"
    by (cases y; cases x) auto
  have fin: "is_finite (fadd (fmul (Val (1 - \<alpha>)) y) (fmul (Val \<alpha>) x))"
    by (simp add: ab)
  from Cons.prems(3) consider "v = fadd (fmul (Val (1 - \<alpha>)) y) (fmul (Val \<alpha>) x)"
    | "v \<in> set (ewm_from \<alpha> (fadd (fmul (Val (1 - \<alpha>)) y) (fmul (Val \<alpha>) x)) xs)"
    by (auto simp: Let_def)
  then show ?case
  proof cases
    case 1
    with fin show ?thesis by simp
  next
    case 2
    with Cons.IH[OF fin] Cons.prems(2) show ?thesis by simp
  qed
qed

lemma ema_defined:
  assumes "0 < period"
  shows "\<exists>ys. ema period df = Inr ys \<and> length ys = length df \<and> (\<forall>v\<in>set ys. is_finite v)"
proof (cases df)
  case Nil
  with assms show ?thesis by (simp add: ema_def ewm_mean_def column_def)
next
  case (Cons b bs)
  have fin: "\<forall>x\<in>set (map (\<lambda>b. Val (Close b)) bs). is_finite x" by simp
  have "\<forall>v\<in>set (ewm_from (2 / (real period + 1)) (Val (Close b)) (map (\<lambda>b. Val (Close b)) bs)). is_finite v"
    using ewm_from_finite[OF _ fin, of "Val (Close b)"] by simp
  with assms Cons show ?thesis by (simp add: ema_def ewm_mean_def column_def)
qed

text \<open>
  C8 (length and undefined prefix of the moving averages), as amended. For a positive
  \<open>period\<close>, the simple and the weighted moving average have one entry per bar, their
  first \<open>period - 1\<close> entries are undefined, and a period above the length of the
  history leaves every entry undefined. The exponential moving average has one entry
  per bar too and raises no error, but every entry is a finite number: it is seeded
  by the first close and has no undefined prefix.
\<close>

theorem moving_average_lengths_and_prefixes:
  assumes "0 < period"
  shows "length (sma period df) = length df \<and> length (wma period df) = length df \<and>
         (\<forall>i<length df. i + 1 < period \<longrightarrow> sma period df ! i = NaN \<and> wma period df ! i = NaN) \<and>
         (length df < period \<longrightarrow>
            (\<forall>v\<in>set (sma period df). v = NaN) \<and> (\<forall>v\<in>set (wma period df). v = NaN)) \<and>
         (\<exists>ys. ema period df = Inr ys \<and> length ys = length df \<and> (\<forall>v\<in>set ys. is_finite v))"
proof -
  have "\<forall>i<length df. i + 1 < period \<longrightarrow> sma period df ! i = NaN \<and> wma period df ! i = NaN"
    by (simp add: sma_def wma_def Let_def nth_rolling_prefix)
  moreover have "length df < period \<longrightarrow>
      (\<forall>v\<in>set (sma period df). v = NaN) \<and> (\<forall>v\<in>set (wma period df). v = NaN)"
    by (auto simp: sma_def wma_def Let_def dest: rolling_short[rotated])
  ultimately show ?thesis using ema_defined[OF assms, of df] by simp
qed

theorem moving_average_lengths_and_prefixes_witness:
  "sma 3 [flat_bar 10, flat_bar 11] = [NaN, NaN] \<and> wma 3 [flat_bar 10, flat_bar 11] = [NaN, NaN] \<and>
   sma 2 [flat_bar 10, flat_bar 11, flat_bar 12] ! 0 = NaN \<and>
   length (wma 2 [flat_bar 10, flat_bar 11, flat_bar 12]) = 3 \<and>
   (\<exists>ys. ema 3 [flat_bar 10, flat_bar 11] = Inr ys \<and> length ys = 2)"
  using moving_average_lengths_and_prefixes[of 3 "[flat_bar 10, flat_bar 11]"]
    moving_average_lengths_and_prefixes[of 2 "[flat_bar 10, flat_bar 11, flat_bar 12]"]
  by (simp add: indicator_defs series_defs upt_rec flat_bar_def)

text \<open>
  C8 as stated fails for the exponential moving average: with period 3 on a two-bar
  history (closes 10 and 11) both entries are defined.
\<close>

theorem ema_has_no_undefined_prefix:
  "ema 3 [flat_bar 10, flat_bar 11] = Inr [Val 10, Val (21 / 2)]"
  by (simp add: indicator_defs series_defs flat_bar_def Let_def)

subsection \<open>Crossover signals\<close>

lemma flt_asym: "flt x y \<Longrightarrow> \<not> flt y x"
  by (cases x; cases y) auto

lemma flt_irrefl [simp]: "\<not> flt x x"
  by (cases x) auto

lemma fle_not_fgt: "fle x y \<Longrightarrow> \<not> fgt x y"
  by (auto simp: fle_def fgt_def feq_def dest: flt_asym)

lemma fge_not_flt: "fge x y \<Longrightarrow> \<not> flt x y"
  by (auto simp: fle_def fge_def feq_def dest: flt_asym)

lemma length_crossover_up [simp]:
  "length (crossover_up a b) = min (length a) (length b)"
  by (simp add: crossover_up_def)

lemma length_crossover_down [simp]:
  "length (crossover_down a b) = min (length a) (length b)"
  by (simp add: crossover_down_def)

lemma nth_crossover_up:
  "i < length a \<Longrightarrow> i < length b \<Longrightarrow> crossover_up a b ! i = crosses_up a b i"
  by (cases i) (auto simp: crossover_up_def crosses_up_def nth_shift1 fle_def feq_def)

lemma nth_crossover_down:
  "i < length a \<Longrightarrow> i < length b \<Longrightarrow> crossover_down a b ! i = crosses_down a b i"
  by (cases i) (auto simp: crossover_down_def crosses_down_def nth_shift1 fle_def fge_def feq_def)

lemma length_crossover_signals:
  "length a = n \<Longrightarrow> length b = n \<Longrightarrow> length (crossover_signals n a b) = n"
  by (simp add: crossover_signals_def mask_assign_def)

lemma nth_crossover_signals:
  assumes "length a = n" "length b = n" "i < n"
  shows "crossover_signals n a b ! i =
           (if crosses_down a b i then - 1 else if crosses_up a b i then 1 else 0)"
  using assms
  by (simp add: crossover_signals_def mask_assign_def nth_crossover_up nth_crossover_down)

lemma up_down_exclusive: "crosses_up a b i \<Longrightarrow> \<not> crosses_down a b i"
  by (auto simp: crosses_up_def crosses_down_def fgt_def dest: flt_asym)

lemma crossover_signals_on_transitions:
  assumes "length a = n" "length b = n"
  shows "signals_on_transitions n a b (crossover_signals n a b)"
  unfolding signals_on_transitions_def
  using assms up_down_exclusive[of a b]
  by (auto simp: length_crossover_signals nth_crossover_signals)

lemma first_failure_after:
  fixes P :: "nat \<Rightarrow> bool"
  assumes "P i" "\<not> P m" "i < m"
  shows "\<exists>k. i < k \<and> k \<le> m \<and> P (k - 1) \<and> \<not> P k"
  using assms
proof (induction m)
  case 0
  then show ?case by simp
next
  case (Suc m)
  show ?case
  proof (cases "P m")
    case True
    with Suc.prems show ?thesis by (intro exI[of _ "Suc m"]) simp
  next
    case False
    with Suc.prems have "i < m" by (cases "i = m") auto
    from Suc.IH[OF Suc.prems(1) False this] show ?thesis by auto
  qed
qed

lemma crossover_relation_reverses:
  assumes "length a = n" "length b = n"
  shows "relation_reverses_between n a b (crossover_signals n a b)"
  unfolding relation_reverses_between_def
proof (intro allI impI conjI)
  fix i j
  assume ij: "i < j \<and> j < n"
  assume "crossover_signals n a b ! i = 1 \<and> crossover_signals n a b ! j = 1"
  with ij assms have up: "crosses_up a b i" "crosses_up a b j"
    by (auto simp: nth_crossover_signals split: if_splits)
  then have gi: "fgt (a ! i) (b ! i)" and nj: "\<not> fgt (a ! (j - 1)) (b ! (j - 1))"
    by (auto simp: crosses_up_def dest: fle_not_fgt)
  with ij have "i < j - 1" by (cases "i = j - 1") auto
  from first_failure_after[of "\<lambda>k. fgt (a ! k) (b ! k)", OF gi nj this]
  show "\<exists>k. i < k \<and> k < j \<and> fgt (a ! (k - 1)) (b ! (k - 1)) \<and> \<not> fgt (a ! k) (b ! k)"
    using ij by auto
next
  fix i j
  assume ij: "i < j \<and> j < n"
  assume "crossover_signals n a b ! i = - 1 \<and> crossover_signals n a b ! j = - 1"
  with ij assms have dn: "crosses_down a b i" "crosses_down a b j"
    by (auto simp: nth_crossover_signals split: if_splits)
  then have gi: "flt (a ! i) (b ! i)" and nj: "\<not> flt (a ! (j - 1)) (b ! (j - 1))"
    by (auto simp: crosses_down_def dest: fge_not_flt)
  with ij have "i < j - 1" by (cases "i = j - 1") auto
  from first_failure_after[of "\<lambda>k. flt (a ! k) (b ! k)", OF gi nj this]
  show "\<exists>k. i < k \<and> k < j \<and> flt (a ! (k - 1)) (b ! (k - 1)) \<and> \<not> flt (a ! k) (b ! k)"
    using ij by auto
qed

lemma ewm_mean_length: "ewm_mean p xs = Inr ys \<Longrightarrow> length ys = length xs"
  by (auto simp: ewm_mean_def split: if_splits list.splits)

lemma ewm_mean_defined: "0 < p \<Longrightarrow> \<exists>ys. ewm_mean p xs = Inr ys"
  by (simp add: ewm_mean_def)

lemma macd_defined:
  assumes "0 < fast" "0 < slow" "0 < sp"
  shows "\<exists>m. macd fast slow sp df = Inr m"
proof -
  from assms obtain e1 e2 where e: "ema fast df = Inr e1" "ema slow df = Inr e2"
    using ewm_mean_defined by (auto simp: ema_def) blast
  from assms obtain sl where "ewm_mean sp (series_sub e1 e2) = Inr sl"
    using ewm_mean_defined by blast
  with e show ?thesis by (simp add: macd_def Let_def)
qed

lemma macd_lengths:
  assumes "macd fast slow sp df = Inr m"
  shows "length (macd_line m) = length df \<and> length (signal_line m) = length df"
proof -
  from assms obtain e1 e2 sl where e: "ema fast df = Inr e1" "ema slow df = Inr e2"
    "ewm_mean sp (series_sub e1 e2) = Inr sl"
    "m = \<lparr>macd_line = series_sub e1 e2, signal_line = sl, histogram = series_sub (series_sub e1 e2) sl\<rparr>"
    by (auto simp: macd_def Let_def split: sum.splits)
  from e(1,2) have "length e1 = length df" "length e2 = length df"
    by (auto simp: ema_def dest: ewm_mean_length)
  with e(3,4) show ?thesis by (auto dest: ewm_mean_length)
qed

lemmas crossover_defs = sma_crossover_signals_def crossover_signals_def mask_assign_def
  crossover_up_def crossover_down_def macd_crossover_signals_def macd_def

lemma touch_history_signals:
  "sma_crossover_signals 1 2 touch_history = [0, 0, 1, 0, 1]"
  by (simp add: touch_history_def crossover_defs indicator_defs series_defs compare_defs
      flat_bar_def upt_rec)

text \<open>
  C7 (crossover signals), as amended. In the moving-average crossover and in the
  MACD crossover the signal at bar \<open>i\<close> is a buy exactly when \<open>A[i] > B[i]\<close> and
  \<open>A[i-1] \<le> B[i-1]\<close>, a sell exactly when \<open>A[i] < B[i]\<close> and \<open>A[i-1] \<ge> B[i-1]\<close>, and a
  hold at every other bar. Between two buys there is a bar at which \<open>A\<close>, above \<open>B\<close> one
  bar earlier, is no longer above \<open>B\<close>, and between two sells a bar at which \<open>A\<close>,
  below \<open>B\<close> one bar earlier, is no longer below \<open>B\<close>. Nothing is said of an opposite
  signal in between. For positive periods the MACD strategy raises no error.
\<close>

theorem crossover_signals_only_on_transitions:
  "(signals_on_transitions (length df) (sma fast df) (sma slow df)
       (sma_crossover_signals fast slow df) \<and>
    relation_reverses_between (length df) (sma fast df) (sma slow df)
       (sma_crossover_signals fast slow df)) \<and>
   (0 < f \<and> 0 < s \<and> 0 < g \<longrightarrow>
      (\<exists>m sig. macd f s g df = Inr m \<and> macd_crossover_signals f s g df = Inr sig \<and>
         signals_on_transitions (length df) (macd_line m) (signal_line m) sig \<and>
         relation_reverses_between (length df) (macd_line m) (signal_line m) sig))"
proof (intro conjI impI)
  show "signals_on_transitions (length df) (sma fast df) (sma slow df)
       (sma_crossover_signals fast slow df)"
    unfolding sma_crossover_signals_def
    by (rule crossover_signals_on_transitions) (simp_all add: sma_def rolling_def)
  show "relation_reverses_between (length df) (sma fast df) (sma slow df)
       (sma_crossover_signals fast slow df)"
    unfolding sma_crossover_signals_def
    by (rule crossover_relation_reverses) (simp_all add: sma_def rolling_def)
next
  assume "0 < f \<and> 0 < s \<and> 0 < g"
  then obtain m where m: "macd f s g df = Inr m"
    using macd_defined[of f s g df] by auto
  note len = macd_lengths[OF m]
  have sig: "macd_crossover_signals f s g df =
      Inr (crossover_signals (length df) (macd_line m) (signal_line m))"
    by (simp add: macd_crossover_signals_def m)
  from len have "signals_on_transitions (length df) (macd_line m) (signal_line m)
      (crossover_signals (length df) (macd_line m) (signal_line m))"
    by (intro crossover_signals_on_transitions) simp_all
  moreover from len have "relation_reverses_between (length df) (macd_line m) (signal_line m)
      (crossover_signals (length df) (macd_line m) (signal_line m))"
    by (intro crossover_relation_reverses) simp_all
  ultimately show "\<exists>m sig. macd f s g df = Inr m \<and> macd_crossover_signals f s g df = Inr sig \<and>
         signals_on_transitions (length df) (macd_line m) (signal_line m) sig \<and>
         relation_reverses_between (length df) (macd_line m) (signal_line m) sig"
    using m sig by blast
qed

theorem crossover_signals_only_on_transitions_witness:
  "crosses_up (sma 1 touch_history) (sma 2 touch_history) 2 \<and>
   (\<exists>k. 2 < k \<and> k < 4 \<and>
        fgt (sma 1 touch_history ! (k - 1)) (sma 2 touch_history ! (k - 1)) \<and>
        \<not> fgt (sma 1 touch_history ! k) (sma 2 touch_history ! k)) \<and>
   (\<exists>m sig. macd 1 2 1 touch_history = Inr m \<and>
        macd_crossover_signals 1 2 1 touch_history = Inr sig \<and> length sig = 5)"
proof -
  have n: "length touch_history = 5" by (simp add: touch_history_def)
  note t = crossover_signals_only_on_transitions[of touch_history 1 2 1 2 1,
      unfolded n touch_history_signals]
  from t have on: "signals_on_transitions 5 (sma 1 touch_history) (sma 2 touch_history)
      [0, 0, 1, 0, 1]"
    and rev: "relation_reverses_between 5 (sma 1 touch_history) (sma 2 touch_history)
      [0, 0, 1, 0, 1]"
    by blast+
  have lt: "(2::nat) < 5" by simp
  from on lt
  have "[0, 0, 1, 0, 1 :: int] ! 2 = 1 \<longleftrightarrow>
          crosses_up (sma 1 touch_history) (sma 2 touch_history) 2"
    unfolding signals_on_transitions_def by blast
  then have up: "crosses_up (sma 1 touch_history) (sma 2 touch_history) 2" by simp
  from rev have "\<exists>k. 2 < k \<and> k < 4 \<and>
        fgt (sma 1 touch_history ! (k - 1)) (sma 2 touch_history ! (k - 1)) \<and>
        \<not> fgt (sma 1 touch_history ! k) (sma 2 touch_history ! k)"
    unfolding relation_reverses_between_def
    by (elim allE[of _ 2] allE[of _ 4]) simp
  moreover from t obtain m sig where "macd 1 2 1 touch_history = Inr m"
    "macd_crossover_signals 1 2 1 touch_history = Inr sig"
    "signals_on_transitions 5 (macd_line m) (signal_line m) sig"
    by auto
  then have "\<exists>m sig. macd 1 2 1 touch_history = Inr m \<and>
        macd_crossover_signals 1 2 1 touch_history = Inr sig \<and> length sig = 5"
    by (auto simp: signals_on_transitions_def)
  ultimately show ?thesis using up by blast
qed

text \<open>
  C7 as stated fails in its last part: when \<open>A\<close> only touches \<open>B\<close> (\<open>A = B\<close> at one bar)
  and rises again, the strategy emits two buys with no sell transition between them.
  With periods 1 and 2 on the closes 2, 1, 2, 2, 3 the averages are equal at the
  fourth bar, and the signals are buy at the third and at the fifth bar.
\<close>

theorem two_entries_without_an_exit:
  "sma_crossover_signals 1 2 touch_history = [0, 0, 1, 0, 1]"
  by (simp add: touch_history_def crossover_defs indicator_defs series_defs compare_defs
      flat_bar_def upt_rec)

subsection \<open>The steps of the simple backtest\<close>

lemma simple_backtest_fields:
  assumes "simple_backtest cap df signals = Inr r"
  shows "returns r = strategy_returns_of df signals"
    and "equity_curve r = equity_of cap (strategy_returns_of df signals)"
    and "trades_detail r = calculate_trades (positions_of signals) df"
    and "trades r = length (calculate_trades (positions_of signals) df)"
    and "win_rate_pct r = calculate_win_rate (calculate_trades (positions_of signals) df)"
    and "sharpe r = calculate_sharpe (strategy_returns_of df signals) 0"
    and "final_equity r = last (equity_of cap (strategy_returns_of df signals))"
    and "total_return_pct r =
           fmul (fsub (fdiv (last (equity_of cap (strategy_returns_of df signals))) (Val cap))
                  (Val 1)) (Val 100)"
    and "equity_of cap (strategy_returns_of df signals) \<noteq> []"
  using assms
  by (auto simp: simple_backtest_def Let_def split: if_splits prod.splits)

lemma simple_backtest_defined:
  assumes "signals \<noteq> []" "df \<noteq> []"
  shows "\<exists>r. simple_backtest cap df signals = Inr r"
proof -
  have "length (equity_of cap (strategy_returns_of df signals)) \<noteq> 0"
    using assms by simp
  then have "equity_of cap (strategy_returns_of df signals) \<noteq> []" by fastforce
  then show ?thesis
    by (simp add: simple_backtest_def Let_def split: prod.splits)
qed

lemma nth_positions_of:
  "i < length signals \<Longrightarrow> positions_of signals ! i = Val (of_int (hold 0 signals ! i))"
  by (simp add: positions_of_hold)

lemma nth_strategy_returns:
  assumes "length signals = length df" "i < length df" "0 < i"
  shows "strategy_returns_of df signals ! i =
           fmul (positions_of signals ! (i - 1))
                (fsub (fdiv (Val (Close (df ! i))) (Val (Close (df ! (i - 1))))) (Val 1))"
  using assms
  by (simp add: strategy_returns_of_def series_mul_def nth_shift1 nth_pct_change nth_column)

lemma strategy_returns_0:
  assumes "length signals = length df" "df \<noteq> []"
  shows "strategy_returns_of df signals ! 0 = NaN"
  using assms
  by (simp add: strategy_returns_of_def series_mul_def nth_shift1)

lemma strategy_returns_finite:
  assumes "length signals = length df" "i < length df" "0 < i" "\<forall>b\<in>set df. 0 < Close b"
  shows "strategy_returns_of df signals ! i =
           Val (of_int (hold 0 signals ! (i - 1)) * (Close (df ! i) / Close (df ! (i - 1)) - 1))"
proof -
  from assms have "df ! (i - 1) \<in> set df" by (intro nth_mem) simp
  with assms have "Close (df ! (i - 1)) \<noteq> 0" by fastforce
  then show ?thesis
    using assms(1-3) by (simp add: nth_strategy_returns nth_positions_of fsub_def)
qed



lemma cumprod_NaN_head:
  "cumprod (NaN # xs) = NaN # cumprod_from (Val 1) xs"
  by (simp add: cumprod_def)









subsection \<open>The trade log\<close>

lemma feq_Val [simp]: "feq (Val a) (Val b) \<longleftrightarrow> a = b"
  by (simp add: feq_def)










subsection \<open>A signal stream without signals\<close>

lemma hold_all_zero: "\<forall>s\<in>set ss. s = 0 \<Longrightarrow> hold 0 ss = replicate (length ss) 0"
  by (induction ss) (simp_all add: Let_def)

lemma trades_loop_flat:
  "trades_loop i (replicate m (Val 0)) bs None ts = ts"
proof (induction m arbitrary: i bs)
  case 0
  then show ?case by simp
next
  case (Suc m)
  then show ?case by (cases bs) simp_all
qed

lemma calculate_trades_all_hold:
  assumes "\<forall>s\<in>set signals. s = 0"
  shows "calculate_trades (positions_of signals) df = []"
  using assms
  by (simp add: calculate_trades_def positions_of_hold hold_all_zero trades_loop_flat)

lemma strategy_returns_all_hold:
  assumes "\<forall>s\<in>set signals. s = 0" "length signals = length df" "df \<noteq> []"
    "\<forall>b\<in>set df. 0 < Close b"
  shows "strategy_returns_of df signals = NaN # replicate (length df - 1) (Val 0)"
proof (rule nth_equalityI)
  show "length (strategy_returns_of df signals) = length (NaN # replicate (length df - 1) (Val 0))"
    using assms by (cases df) simp_all
next
  fix i assume "i < length (strategy_returns_of df signals)"
  then have i: "i < length df" using assms(2) by simp
  show "strategy_returns_of df signals ! i = (NaN # replicate (length df - 1) (Val 0)) ! i"
  proof (cases i)
    case 0
    with assms show ?thesis by (simp add: strategy_returns_0)
  next
    case (Suc j)
    with i have "hold 0 signals ! j = 0"
      using assms(1,2) by (simp add: hold_all_zero)
    with Suc i show ?thesis
      using strategy_returns_finite[OF assms(2) i _ assms(4)] by simp
  qed
qed

lemma cumprod_from_ones: "cumprod_from (Val 1) (replicate m (Val 1)) = replicate m (Val 1)"
  by (induction m) simp_all

lemma equity_all_hold:
  "equity_of cap (NaN # replicate m (Val 0)) = NaN # replicate m (Val cap)"
  by (simp add: equity_of_def cumprod_def cumprod_from_ones)

lemma foldl_fadd_zeros: "foldl fadd (Val 0) (replicate m (Val 0)) = Val 0"
  by (induction m) simp_all

lemma fsum_zeros: "fsum (replicate m (Val 0)) = Val 0"
  by (simp add: fsum_def foldl_fadd_zeros)

lemma dropna_all_hold: "dropna (NaN # replicate m (Val 0)) = replicate m (Val 0)"
  by (simp add: dropna_def)

lemma std_all_hold:
  assumes "2 \<le> m"
  shows "std (NaN # replicate m (Val 0)) = Val 0"
proof -
  have mean0: "mean (NaN # replicate m (Val 0)) = Val 0"
    using assms by (simp add: mean_def dropna_all_hold fsum_zeros Let_def)
  have "map (\<lambda>x. fmul (fsub x (Val 0)) (fsub x (Val 0))) (replicate m (Val 0)) =
      replicate m (Val 0)"
    by (simp add: fsub_def)
  then show ?thesis
    using assms by (simp add: std_def dropna_all_hold mean0 fsum_zeros Let_def)
qed

lemma sharpe_all_hold:
  assumes "2 \<le> m"
  shows "calculate_sharpe (NaN # replicate m (Val 0)) 0 = Val 0"
  by (simp add: calculate_sharpe_def std_all_hold[OF assms])

text \<open>
  C9 (the zero-trade backtest), as amended. For a signal stream of holds only, over
  a history of at least two bars with positive closes and a non-zero initial
  capital, the backtest raises no error and reports zero trades, a win rate of 0
  and a total return of 0; with at least three bars it reports a Sharpe ratio of 0
  as well.
\<close>

theorem all_hold_backtest_is_neutral:
  assumes "\<forall>s\<in>set signals. s = 0"
    and "length signals = length df"
    and "2 \<le> length df"
    and "\<forall>b\<in>set df. 0 < Close b"
    and "cap \<noteq> 0"
  shows "\<exists>r. simple_backtest cap df signals = Inr r \<and> trades r = 0 \<and> trades_detail r = [] \<and>
             win_rate_pct r = Val 0 \<and> total_return_pct r = Val 0 \<and>
             (3 \<le> length df \<longrightarrow> sharpe r = Val 0)"
proof -
  from assms(2,3) have ne: "signals \<noteq> []" "df \<noteq> []" by auto
  then obtain r where r: "simple_backtest cap df signals = Inr r"
    using simple_backtest_defined by blast
  note f = simple_backtest_fields[OF r]
  note sr = strategy_returns_all_hold[OF assms(1,2) ne(2) assms(4)]
  have tr: "calculate_trades (positions_of signals) df = []"
    by (rule calculate_trades_all_hold[OF assms(1)])
  from assms(3) obtain m where m: "length df - 1 = Suc m" by (cases "length df - 1") auto
  have eq: "equity_of cap (strategy_returns_of df signals) = NaN # replicate (Suc m) (Val cap)"
    unfolding sr equity_all_hold m by simp
  have "last (equity_of cap (strategy_returns_of df signals)) = Val cap"
    unfolding eq by simp
  then have total: "total_return_pct r = Val 0"
    using assms(5) by (simp add: f(8) fsub_def)
  have sh: "sharpe r = Val 0" if "3 \<le> length df"
  proof -
    from that have "2 \<le> length df - 1" by simp
    then show ?thesis by (simp add: f(6) sr sharpe_all_hold)
  qed
  from r total sh show ?thesis
    by (auto simp: f(3,4,5) tr calculate_win_rate_def)
qed

theorem all_hold_backtest_is_neutral_witness:
  "\<exists>r. simple_backtest 10000 quiet_history [0, 0, 0] = Inr r \<and> trades r = 0 \<and>
       win_rate_pct r = Val 0 \<and> total_return_pct r = Val 0 \<and> sharpe r = Val 0"
proof -
  have 1: "\<forall>s\<in>set [0, 0, 0 :: int]. s = 0" by simp
  have 2: "length [0, 0, 0 :: int] = length quiet_history" by (simp add: quiet_history_def)
  have 3: "2 \<le> length quiet_history" by (simp add: quiet_history_def)
  have 4: "\<forall>b\<in>set quiet_history. 0 < Close b" by (simp add: quiet_history_def flat_bar_def)
  have 5: "(10000 :: real) \<noteq> 0" by simp
  have 6: "3 \<le> length quiet_history" by (simp add: quiet_history_def)
  from all_hold_backtest_is_neutral[OF 1 2 3 4 5] 6 show ?thesis by blast
qed

text \<open>
  C9 as stated fails on short histories: on the empty history \<^verbatim>\<open>equity.iloc[-1]\<close>
  raises \<^verbatim>\<open>IndexError\<close>; on a single bar the total return and the Sharpe ratio are
  \<open>NaN\<close>; on two bars the total return is 0 but the Sharpe ratio is \<open>NaN\<close>, since the
  deviation of a single return is \<open>NaN\<close> and \<^verbatim>\<open>returns.std() == 0\<close> is then false.
  After a close of zero, and with an initial capital of zero, the total return is
  \<open>NaN\<close> on a history of three bars.
\<close>

theorem all_hold_backtest_on_short_history:
  "simple_backtest 10000 [] [] = Inl IndexError \<and>
   (\<exists>r. simple_backtest 10000 [flat_bar 100] [0] = Inr r \<and>
        total_return_pct r = NaN \<and> sharpe r = NaN) \<and>
   (\<exists>r. simple_backtest 10000 [flat_bar 100, flat_bar 101] [0, 0] = Inr r \<and>
        total_return_pct r = Val 0 \<and> sharpe r = NaN) \<and>
   (\<exists>r. simple_backtest 10000 [flat_bar 1, flat_bar 0, flat_bar 1] [0, 0, 0] = Inr r \<and>
        total_return_pct r = NaN) \<and>
   (\<exists>r. simple_backtest 0 quiet_history [0, 0, 0] = Inr r \<and> total_return_pct r = NaN)"
  by (simp add: quiet_history_def backtest_defs series_defs compare_defs flat_bar_def Let_def)

subsection \<open>The first entry of the equity curve\<close>

text \<open>
  C2 (the equity curve starts at the initial capital, and every number of the
  result is finite). The code does not keep this: the strategy return of the first
  bar is \<open>NaN\<close>, since neither the shifted positions nor the relative change of the
  close have a value there, and the cumulative product hands it on to the equity
  curve. On the closes 100, 125, 100 with initial capital 10000, a buy at the
  first and a sell at the last bar, the equity curve is \<open>NaN\<close>, 12500, 10000, where
  the first entry should be 10000. On a history of a single bar the only entry of
  the curve is \<open>NaN\<close>, and with it the final equity, the total return and the
  maximum drawdown; the Sharpe ratio is \<open>NaN\<close> there as well.
\<close>

theorem equity_curve_first_entry_is_nan:
  "(\<exists>r. simple_backtest 10000 rise_and_fall [1, 0, - 1] = Inr r \<and>
        returns r ! 0 = NaN \<and> equity_curve r = [NaN, Val 12500, Val 10000] \<and>
        final_equity r = Val 10000) \<and>
   (\<exists>r. simple_backtest 10000 [flat_bar 100] [0] = Inr r \<and> equity_curve r = [NaN] \<and>
        final_equity r = NaN \<and> total_return_pct r = NaN \<and> sharpe r = NaN \<and>
        max_dd_pct r = NaN)"
  by (simp add: rise_and_fall_def backtest_defs series_defs compare_defs flat_bar_def Let_def)

subsection \<open>The oscillator\<close>

lemma nth_rolling:
  "0 < w \<Longrightarrow> i < length xs \<Longrightarrow> w \<le> i + 1 \<Longrightarrow>
     rolling w agg xs ! i =
       (let win = take w (drop (i + 1 - w) xs)
        in if list_ex isnan win then NaN else agg win)"
  by (simp add: rolling_def)

lemma window_of_map:
  assumes "w \<le> i + 1" "i < n"
  shows "take w (drop (i + 1 - w) (map g [0..<n])) = map g [i + 1 - w..<i + 1]"
proof -
  have "take w (drop (i + 1 - w) [0..<n]) = [i + 1 - w..<i + 1]"
    using assms by (simp add: take_upt)
  then show ?thesis by (simp add: take_map drop_map)
qed

lemma foldl_fadd_Val:
  "foldl fadd (Val a) (map (\<lambda>k. Val (f k)) ks) = Val (a + sum_list (map f ks))"
  by (induction ks arbitrary: a) (simp_all add: add.assoc)

lemma fsum_map_Val: "fsum (map (\<lambda>k. Val (f k)) ks) = Val (sum_list (map f ks))"
  by (simp add: fsum_def foldl_fadd_Val)

lemma rolling_mean_of_map:
  assumes "0 < w" "i < n"
  shows "rolling w window_mean (map (\<lambda>k. Val (f k)) [0..<n]) ! i =
           (if i + 1 < w then NaN
            else Val (sum_list (map f [i + 1 - w..<i + 1]) / real w))"
proof (cases "i + 1 < w")
  case True
  with assms show ?thesis by (simp add: nth_rolling_prefix)
next
  case False
  then have w: "w \<le> i + 1" by simp
  have win: "take w (drop (i + 1 - w) (map (\<lambda>k. Val (f k)) [0..<n])) =
      map (\<lambda>k. Val (f k)) [i + 1 - w..<i + 1]"
    by (rule window_of_map[OF w assms(2)])
  have nn: "\<not> list_ex isnan (map (\<lambda>k. Val (f k)) [i + 1 - w..<i + 1])"
    by (simp add: list_ex_iff)
  have "i + 1 - (i + 1 - w) = w" using w by arith
  then have len: "length (map (\<lambda>k. Val (f k)) [i + 1 - w..<i + 1]) = w"
    by (simp del: upt_Suc)
  have "rolling w window_mean (map (\<lambda>k. Val (f k)) [0..<n]) ! i =
      window_mean (map (\<lambda>k. Val (f k)) [i + 1 - w..<i + 1])"
    using assms(2) nn
    by (simp only: nth_rolling[OF assms(1) _ w] win Let_def length_map length_upt
        minus_nat.diff_0 if_False)
  also have "\<dots> = fdiv (Val (sum_list (map f [i + 1 - w..<i + 1]))) (Val (real w))"
    unfolding window_mean_def fsum_map_Val len ..
  also have "\<dots> = Val (sum_list (map f [i + 1 - w..<i + 1]) / real w)"
    using assms(1) by simp
  finally show ?thesis using False by simp
qed

lemma nth_diff:
  "i < length xs \<Longrightarrow> diff xs ! i = fsub (xs ! i) (shift1 xs ! i)"
  by (simp add: diff_def series_sub_def)

lemma gains_series:
  "map (\<lambda>d. if fgt d (Val 0) then d else Val 0) (diff (column Close df)) =
     map (\<lambda>k. Val (up_move df k)) [0..<length df]"
proof (rule nth_equalityI)
  show "length (map (\<lambda>d. if fgt d (Val 0) then d else Val 0) (diff (column Close df))) =
      length (map (\<lambda>k. Val (up_move df k)) [0..<length df])" by simp
next
  fix i assume "i < length (map (\<lambda>d. if fgt d (Val 0) then d else Val 0) (diff (column Close df)))"
  then have i: "i < length df" by simp
  then show "map (\<lambda>d. if fgt d (Val 0) then d else Val 0) (diff (column Close df)) ! i =
      map (\<lambda>k. Val (up_move df k)) [0..<length df] ! i"
    by (cases i)
       (auto simp: nth_diff nth_shift1 nth_column fsub_def fgt_def up_move_def max_def)
qed

lemma losses_series:
  "map fneg (map (\<lambda>d. if flt d (Val 0) then d else Val 0) (diff (column Close df))) =
     map (\<lambda>k. Val (down_move df k)) [0..<length df]"
proof (rule nth_equalityI)
  show "length (map fneg (map (\<lambda>d. if flt d (Val 0) then d else Val 0)
      (diff (column Close df)))) = length (map (\<lambda>k. Val (down_move df k)) [0..<length df])"
    by simp
next
  fix i
  assume "i < length (map fneg (map (\<lambda>d. if flt d (Val 0) then d else Val 0)
      (diff (column Close df))))"
  then have i: "i < length df" by simp
  then show "map fneg (map (\<lambda>d. if flt d (Val 0) then d else Val 0)
      (diff (column Close df))) ! i = map (\<lambda>k. Val (down_move df k)) [0..<length df] ! i"
    by (cases i)
       (auto simp: nth_diff nth_shift1 nth_column fsub_def down_move_def max_def)
qed

lemma length_rsi_manual [simp]: "length (rsi_manual period df) = length df"
  by (simp add: rsi_manual_def Let_def)

lemma nth_rsi_manual:
  assumes "0 < period" "i < length df"
  shows "rsi_manual period df ! i =
           (if i + 1 < period then NaN
            else rsi_value (avg_gain period df i) (avg_loss period df i))"
proof -
  have g: "rolling period window_mean
      (map (\<lambda>d. if fgt d (Val 0) then d else Val 0) (diff (column Close df))) ! i =
      (if i + 1 < period then NaN else Val (avg_gain period df i))"
    unfolding gains_series avg_gain_def by (rule rolling_mean_of_map[OF assms])
  have l: "rolling period window_mean
      (map fneg (map (\<lambda>d. if flt d (Val 0) then d else Val 0) (diff (column Close df)))) ! i =
      (if i + 1 < period then NaN else Val (avg_loss period df i))"
    unfolding losses_series avg_loss_def by (rule rolling_mean_of_map[OF assms])
  have "rsi_manual period df ! i =
      fsub (Val 100) (fdiv (Val 100) (fadd (Val 1)
        (fdiv (rolling period window_mean
                (map (\<lambda>d. if fgt d (Val 0) then d else Val 0) (diff (column Close df))) ! i)
              (rolling period window_mean
                (map fneg (map (\<lambda>d. if flt d (Val 0) then d else Val 0)
                  (diff (column Close df)))) ! i))))"
    using assms(2) by (simp add: rsi_manual_def Let_def series_div_def del: map_map)
  also have "\<dots> = (if i + 1 < period then NaN
            else rsi_value (avg_gain period df i) (avg_loss period df i))"
    unfolding g l by (simp add: rsi_value_def fsub_def)
  finally show ?thesis .
qed

lemmas rsi_defs = rsi_def rsi_manual_def rsi_value_def avg_gain_def avg_loss_def up_move_def
  down_move_def wilder_rsi_def zigzag_def

text \<open>
  C6 (the oscillator uses simple rolling means), as amended. When the \<^verbatim>\<open>ta\<close> package is
  not importable, for every history and positive period the oscillator has one
  entry per bar, undefined at the first \<open>period - 1\<close> bars, and at every later bar
  equal to \<open>100 - 100 / (1 + ratio)\<close>, where \<open>ratio\<close> is the simple mean over the last
  \<open>period\<close> bars of the upward moves of the close divided by the simple mean over
  the same bars of the magnitudes of its downward moves (the first bar counting as
  no move). When the package is importable the engine returns what its
  \<^verbatim>\<open>RSIIndicator\<close> computes.
\<close>

theorem rsi_uses_simple_rolling_means:
  assumes "0 < period"
  shows "length (rsi None period df) = length df \<and>
         (\<forall>i<length df. rsi None period df ! i =
            (if i + 1 < period then NaN
             else rsi_value (avg_gain period df i) (avg_loss period df i))) \<and>
         rsi (Some lib) period df = lib period (column Close df)"
  using nth_rsi_manual[OF assms] by (simp add: rsi_def)

theorem rsi_uses_simple_rolling_means_witness:
  "rsi None 2 zigzag ! 2 = rsi_value (avg_gain 2 zigzag 2) (avg_loss 2 zigzag 2) \<and>
   rsi_value (avg_gain 2 zigzag 2) (avg_loss 2 zigzag 2) = Val 50 \<and>
   rsi None 2 zigzag ! 0 = NaN"
proof -
  have p: "(0::nat) < 2" by simp
  have n: "length zigzag = 4" by (simp add: zigzag_def)
  note t = rsi_uses_simple_rolling_means[OF p, of zigzag, unfolded n]
  have l2: "(2::nat) < 4" and l0: "(0::nat) < 4" by simp_all
  from t l2 have a: "rsi None 2 zigzag ! 2 =
      (if (2::nat) + 1 < 2 then NaN else rsi_value (avg_gain 2 zigzag 2) (avg_loss 2 zigzag 2))"
    by blast
  from t l0 have b: "rsi None 2 zigzag ! 0 =
      (if (0::nat) + 1 < 2 then NaN else rsi_value (avg_gain 2 zigzag 0) (avg_loss 2 zigzag 0))"
    by blast
  have c: "rsi_value (avg_gain 2 zigzag 2) (avg_loss 2 zigzag 2) = Val 50"
    by (simp add: rsi_defs flat_bar_def fsub_def upt_rec)
  from a b c show ?thesis by simp
qed

text \<open>
  C6 as stated fails when the optional dependency is present: the engine then
  delegates to it, and an exponentially smoothed oscillator gives 100/3 at the
  third bar of the closes 10, 11, 10, 10 with period 2, where the simple rolling
  means give 50.
\<close>

theorem rsi_with_the_library_is_smoothed:
  "rsi (Some wilder_rsi) 2 zigzag ! 2 = Val (100 / 3) \<and>
   rsi_value (avg_gain 2 zigzag 2) (avg_loss 2 zigzag 2) = Val 50"
  by (simp add: rsi_defs series_defs compare_defs flat_bar_def upt_rec Let_def)

subsection \<open>Support and resistance\<close>

lemma foldl_append_if:
  "foldl (\<lambda>acc i. if P i then acc @ [g i] else acc) acc0 ks = acc0 @ map g (filter P ks)"
  by (induction ks arbitrary: acc0) simp_all

lemma touches_eq: "touches col level = touch_count col level"
  by (simp add: touches_def touch_count_def fge_def fle_def feq_def less_eq_real_def
      cong: filter_cong)

lemma level_loop_eq:
  "level_loop col rolled window min_touches =
     map (\<lambda>i. col ! i)
       (filter (\<lambda>i. feq (Val (col ! i)) (rolled ! i) \<and> min_touches \<le> touch_count col (col ! i))
          [window..<length col - window])"
proof -
  have "level_loop col rolled window min_touches =
      foldl (\<lambda>acc i. if feq (Val (col ! i)) (rolled ! i) \<and> min_touches \<le> touches col (col ! i)
                      then acc @ [col ! i] else acc) [] [window..<length col - window]"
    unfolding level_loop_def Let_def
    by (rule arg_cong[where f = "\<lambda>f. foldl f [] [window..<length col - window]"])
       (auto simp: fun_eq_iff)
  then show ?thesis by (simp add: foldl_append_if touches_eq)
qed

lemma window_of_column:
  assumes "a + w \<le> length df"
  shows "take w (drop a (column c df)) = map (\<lambda>k. Val (c (df ! k))) [a..<a + w]"
proof (rule nth_equalityI)
  show "length (take w (drop a (column c df))) = length (map (\<lambda>k. Val (c (df ! k))) [a..<a + w])"
    using assms by simp
next
  fix j assume "j < length (take w (drop a (column c df)))"
  then have "j < w" by simp
  with assms show "take w (drop a (column c df)) ! j = map (\<lambda>k. Val (c (df ! k))) [a..<a + w] ! j"
    by (simp add: nth_column)
qed

lemma foldl_fmax_Val: "foldl fmax (Val v) (map Val vs) = Val (Max (set (v # vs)))"
proof (induction vs arbitrary: v)
  case Nil
  then show ?case by simp
next
  case (Cons x vs)
  have "fmax (Val v) (Val x) = Val (max v x)" by (simp add: fmax_def max_def)
  moreover have "Max (set (max v x # vs)) = Max (set (v # x # vs))"
    by (cases "vs = []") (simp_all add: max.assoc)
  ultimately show ?case using Cons[of "max v x"] by simp
qed

lemma foldl_fmin_Val: "foldl fmin (Val v) (map Val vs) = Val (Min (set (v # vs)))"
proof (induction vs arbitrary: v)
  case Nil
  then show ?case by simp
next
  case (Cons x vs)
  have "fmin (Val v) (Val x) = Val (min v x)" by (auto simp: fmin_def min_def)
  moreover have "Min (set (min v x # vs)) = Min (set (v # x # vs))"
    by (cases "vs = []") (simp_all add: min.assoc)
  ultimately show ?case using Cons[of "min v x"] by simp
qed

lemma window_max_Val: "vs \<noteq> [] \<Longrightarrow> window_max (map Val vs) = Val (Max (set vs))"
  using foldl_fmax_Val by (cases vs) (simp_all add: window_max_def)

lemma window_min_Val: "vs \<noteq> [] \<Longrightarrow> window_min (map Val vs) = Val (Min (set vs))"
  using foldl_fmin_Val by (cases vs) (simp_all add: window_min_def)

lemma window_bars_nonempty: "0 < window \<Longrightarrow> window \<le> i \<Longrightarrow> window_bars window i \<noteq> []"
  by (simp add: window_bars_def)

lemma nth_rolling_center_column:
  assumes "interior window df i"
  shows "rolling_center window agg (column c df) ! i =
           agg (map Val (map (\<lambda>k. c (df ! k)) (window_bars window i)))"
proof -
  define off where "off = (window - 1) div 2"
  from assms have w: "0 < window" "window \<le> i" "i + window < length df"
    by (simp_all add: interior_def)
  then have off: "off < window" by (simp add: off_def)
  have a: "i + off + 1 - window + window = i + off + 1" using w by simp
  have inside: "i + off + 1 - window + window \<le> length df" using w off by simp
  have win: "take window (drop (i + off + 1 - window) (column c df)) =
      map Val (map (\<lambda>k. c (df ! k)) (window_bars window i))"
    unfolding window_of_column[OF inside] a
    by (simp add: window_bars_def off_def)
  have nn: "\<not> list_ex isnan (map Val (map (\<lambda>k. c (df ! k)) (window_bars window i)))"
    by (simp add: list_ex_iff)
  have i: "i < length df" using w by simp
  have cond: "\<not> (window = 0 \<or> i + off + 1 < window \<or> length (column c df) \<le> i + off)"
    using w off by simp
  show ?thesis
    unfolding rolling_center_def
    using i cond nn
    by (simp only: nth_map length_upt length_column minus_nat.diff_0 nth_upt add_0 Let_def
        off_def[symmetric] if_False win)
qed

lemma rolling_center_zero:
  "i < length xs \<Longrightarrow> rolling_center 0 agg xs ! i = NaN"
  by (simp add: rolling_center_def)

lemma resistance_test:
  assumes "i \<in> set [window..<length df - window]"
  shows "feq (Val (map High df ! i)) (rolling_center window window_max (column High df) ! i) =
           resistance_candidate window df i"
proof (cases "window = 0")
  case True
  with assms show ?thesis
    by (simp add: rolling_center_zero feq_def resistance_candidate_def interior_def)
next
  case False
  with assms have int: "interior window df i" by (auto simp: interior_def)
  then have ne: "map (\<lambda>k. High (df ! k)) (window_bars window i) \<noteq> []"
    using window_bars_nonempty[of window i] by (simp add: interior_def)
  from int have i: "i < length df" by (simp add: interior_def)
  show ?thesis
    using i
    unfolding nth_rolling_center_column[OF int] window_max_Val[OF ne] resistance_candidate_def
    by (simp add: int del: set_map)
qed

lemma support_test:
  assumes "i \<in> set [window..<length df - window]"
  shows "feq (Val (map Low df ! i)) (rolling_center window window_min (column Low df) ! i) =
           support_candidate window df i"
proof (cases "window = 0")
  case True
  with assms show ?thesis
    by (simp add: rolling_center_zero feq_def support_candidate_def interior_def)
next
  case False
  with assms have int: "interior window df i" by (auto simp: interior_def)
  then have ne: "map (\<lambda>k. Low (df ! k)) (window_bars window i) \<noteq> []"
    using window_bars_nonempty[of window i] by (simp add: interior_def)
  from int have i: "i < length df" by (simp add: interior_def)
  show ?thesis
    using i
    unfolding nth_rolling_center_column[OF int] window_min_Val[OF ne] support_candidate_def
    by (simp add: int del: set_map)
qed

lemma interior_in_range:
  "interior window df i \<Longrightarrow> i \<in> set [window..<length df - window] \<and> i < length df"
  by (auto simp: interior_def)

lemma resistance_loop_set:
  "set (level_loop (map High df) (rolling_center window window_max (column High df))
          window min_touches) = resistance_levels window min_touches df"
proof -
  have "filter (\<lambda>i. feq (Val (map High df ! i))
                       (rolling_center window window_max (column High df) ! i) \<and>
                     min_touches \<le> touch_count (map High df) (map High df ! i))
          [window..<length df - window] =
        filter (\<lambda>i. resistance_candidate window df i \<and>
                     min_touches \<le> touch_count (map High df) (map High df ! i))
          [window..<length df - window]"
    by (rule filter_cong[OF refl]) (simp only: resistance_test)
  then have "set (level_loop (map High df) (rolling_center window window_max (column High df))
          window min_touches) =
      (\<lambda>i. map High df ! i) `
        {i \<in> set [window..<length df - window]. resistance_candidate window df i \<and>
             min_touches \<le> touch_count (map High df) (map High df ! i)}"
    by (simp add: level_loop_eq)
  also have "\<dots> = resistance_levels window min_touches df"
  proof (intro set_eqI iffI)
    fix x
    assume "x \<in> (\<lambda>i. map High df ! i) `
        {i \<in> set [window..<length df - window]. resistance_candidate window df i \<and>
             min_touches \<le> touch_count (map High df) (map High df ! i)}"
    then obtain i where i: "x = map High df ! i" "resistance_candidate window df i"
      "min_touches \<le> touch_count (map High df) (map High df ! i)" by auto
    from i(2) have "i < length df"
      by (auto simp: resistance_candidate_def dest: interior_in_range)
    with i have "x = High (df ! i) \<and> resistance_candidate window df i \<and>
        min_touches \<le> touch_count (map High df) (High (df ! i))" by simp
    then show "x \<in> resistance_levels window min_touches df"
      unfolding resistance_levels_def by blast
  next
    fix x
    assume "x \<in> resistance_levels window min_touches df"
    then obtain i where i: "x = High (df ! i)" "resistance_candidate window df i"
      "min_touches \<le> touch_count (map High df) (High (df ! i))"
      unfolding resistance_levels_def by blast
    from i(2) have r: "i \<in> set [window..<length df - window]" "i < length df"
      by (auto simp: resistance_candidate_def dest: interior_in_range)
    with i have "i \<in> {i \<in> set [window..<length df - window].
        resistance_candidate window df i \<and>
        min_touches \<le> touch_count (map High df) (map High df ! i)}"
      and "x = map High df ! i" by simp_all
    then show "x \<in> (\<lambda>i. map High df ! i) `
        {i \<in> set [window..<length df - window]. resistance_candidate window df i \<and>
             min_touches \<le> touch_count (map High df) (map High df ! i)}"
      by (rule image_eqI[rotated])
  qed
  finally show ?thesis .
qed

lemma support_loop_set:
  "set (level_loop (map Low df) (rolling_center window window_min (column Low df))
          window min_touches) = support_levels window min_touches df"
proof -
  have "filter (\<lambda>i. feq (Val (map Low df ! i))
                       (rolling_center window window_min (column Low df) ! i) \<and>
                     min_touches \<le> touch_count (map Low df) (map Low df ! i))
          [window..<length df - window] =
        filter (\<lambda>i. support_candidate window df i \<and>
                     min_touches \<le> touch_count (map Low df) (map Low df ! i))
          [window..<length df - window]"
    by (rule filter_cong[OF refl]) (simp only: support_test)
  then have "set (level_loop (map Low df) (rolling_center window window_min (column Low df))
          window min_touches) =
      (\<lambda>i. map Low df ! i) `
        {i \<in> set [window..<length df - window]. support_candidate window df i \<and>
             min_touches \<le> touch_count (map Low df) (map Low df ! i)}"
    by (simp add: level_loop_eq)
  also have "\<dots> = support_levels window min_touches df"
  proof (intro set_eqI iffI)
    fix x
    assume "x \<in> (\<lambda>i. map Low df ! i) `
        {i \<in> set [window..<length df - window]. support_candidate window df i \<and>
             min_touches \<le> touch_count (map Low df) (map Low df ! i)}"
    then obtain i where i: "x = map Low df ! i" "support_candidate window df i"
      "min_touches \<le> touch_count (map Low df) (map Low df ! i)" by auto
    from i(2) have "i < length df"
      by (auto simp: support_candidate_def dest: interior_in_range)
    with i have "x = Low (df ! i) \<and> support_candidate window df i \<and>
        min_touches \<le> touch_count (map Low df) (Low (df ! i))" by simp
    then show "x \<in> support_levels window min_touches df"
      unfolding support_levels_def by blast
  next
    fix x
    assume "x \<in> support_levels window min_touches df"
    then obtain i where i: "x = Low (df ! i)" "support_candidate window df i"
      "min_touches \<le> touch_count (map Low df) (Low (df ! i))"
      unfolding support_levels_def by blast
    from i(2) have r: "i \<in> set [window..<length df - window]" "i < length df"
      by (auto simp: support_candidate_def dest: interior_in_range)
    with i have "i \<in> {i \<in> set [window..<length df - window].
        support_candidate window df i \<and>
        min_touches \<le> touch_count (map Low df) (map Low df ! i)}"
      and "x = map Low df ! i" by simp_all
    then show "x \<in> (\<lambda>i. map Low df ! i) `
        {i \<in> set [window..<length df - window]. support_candidate window df i \<and>
             min_touches \<le> touch_count (map Low df) (map Low df ! i)}"
      by (rule image_eqI[rotated])
  qed
  finally show ?thesis .
qed

lemmas support_resistance_defs = find_support_resistance_def level_loop_def touches_def
  rolling_center_def window_max_def window_min_def valley_def

text \<open>
  C5 (support and resistance levels), as amended. For every history, window and
  \<open>min_touches\<close>, the resistance list is the (up to) five largest levels, in
  descending order and without repetition, among the highs of the interior bars
  (not among the first or last \<open>window\<close> bars) whose high is the largest high of the
  centered rolling window of \<open>window\<close> bars around them and is touched, within 2
  percent, by the highs of at least \<open>min_touches\<close> bars; the support list is the (up
  to) five smallest such levels of the lows, in ascending order.
\<close>

theorem support_resistance_levels:
  "resistance (find_support_resistance window min_touches df) =
     take 5 (rev (sorted_list_of_set (resistance_levels window min_touches df))) \<and>
   support (find_support_resistance window min_touches df) =
     take 5 (sorted_list_of_set (support_levels window min_touches df))"
  by (simp add: find_support_resistance_def Let_def
      resistance_loop_set[symmetric] support_loop_set[symmetric]
      sorted_list_of_set_sort_remdups)

text \<open>
  C5 as stated fails in the size of the window, which is \<open>window\<close> bars and not
  \<open>2 * window + 1\<close>: with window 1 every interior bar is its own rolling maximum, so
  on the highs 5, 1, 5 the level 1 is returned as a resistance although no bar has
  the largest high of the three bars around it.
\<close>

theorem candidates_use_a_window_of_window_bars:
  "resistance (find_support_resistance 1 1 valley) = [1] \<and>
   filter (stated_resistance_candidate 1 valley) [0, 1, 2] = []"
  by (simp add: support_resistance_defs stated_resistance_candidate_def series_defs
      compare_defs flat_bar_def upt_rec Let_def)

text \<open>The order, the absence of repetitions and the cap, read off the result.\<close>

lemma support_resistance_shape:
  "distinct (resistance (find_support_resistance window min_touches df)) \<and>
   sorted (rev (resistance (find_support_resistance window min_touches df))) \<and>
   length (resistance (find_support_resistance window min_touches df)) \<le> 5 \<and>
   distinct (support (find_support_resistance window min_touches df)) \<and>
   sorted (support (find_support_resistance window min_touches df)) \<and>
   length (support (find_support_resistance window min_touches df)) \<le> 5"
  by (simp add: find_support_resistance_def Let_def rev_take sorted_wrt_drop sorted_wrt_take
      distinct_take)

end
